theory Spec2Isabelle
  imports Complex_Main "HOL-Library.Word" "HOL-Library.AList" "HOL-Library.Signed_Division"
begin

section \<open>Bytes and hexadecimal strings\<close>

text \<open>
  A \<^verbatim>\<open>Uint8Array\<close> is a list of 8-bit words. \<^verbatim>\<open>toHexString\<close> (from the SSZ library) renders
  it as \<^verbatim>\<open>0x\<close> followed by two lower-case hexadecimal digits per byte.
\<close>

type_synonym byte = "8 word"
type_synonym bytes = "byte list"

definition hexDigit :: "nat \<Rightarrow> char" where
  "hexDigit n = ''0123456789abcdef'' ! (n mod 16)"

definition byteToHex :: "byte \<Rightarrow> string" where
  "byteToHex b = [hexDigit (unat b div 16), hexDigit (unat b mod 16)]"

definition toHexString :: "bytes \<Rightarrow> string" where
  "toHexString bs = ''0x'' @ concat (map byteToHex bs)"

section \<open>The state content database\<close>

text \<open>
  \<^verbatim>\<open>StateDB.db\<close> is an in-memory key-value store from strings to byte arrays
  (\<^verbatim>\<open>MemoryLevel<string, Uint8Array>\<close>): \<^verbatim>\<open>put\<close> binds a key, replacing an earlier binding, and
  \<^verbatim>\<open>get\<close> reads it. A key that was never bound reads as \<open>None\<close>.
\<close>

record StateDB =
  db :: "string \<rightharpoonup> bytes"

definition StateDB_new :: "StateDB" where
  "StateDB_new = \<lparr> db = Map.empty \<rparr>"

definition storeContent :: "StateDB \<Rightarrow> bytes \<Rightarrow> bytes \<Rightarrow> StateDB \<times> bool" where
  "storeContent d contentKey content =
     (d\<lparr> db := (db d)(toHexString contentKey \<mapsto> content) \<rparr>, True)"

definition getContent :: "StateDB \<Rightarrow> bytes \<Rightarrow> bytes option" where
  "getContent d contentKey = db d (toHexString contentKey)"

section \<open>Numbers\<close>

text \<open>
  The socket keeps its times in \<^verbatim>\<open>BigNumber\<close> objects (arbitrary-precision integers, here
  \<^typ>\<open>int\<close>) and its sequence numbers and windows in JavaScript numbers.

  \<^verbatim>\<open>BigNumber.div\<close> truncates toward zero, which is \<open>sdiv\<close> on \<^typ>\<open>int\<close>.
  \<^verbatim>\<open>BigNumber.toNumber\<close> throws when the magnitude does not fit 53 bits.
\<close>

datatype error = NumericOverflow | TypeError | ReaderError

definition toNumber :: "int \<Rightarrow> error + int" where
  "toNumber x = (if \<bar>x\<bar> < 2 ^ 53 then Inr x else Inl NumericOverflow)"

text \<open>
  The relational operator \<^verbatim>\<open><\<close> applied to two \<^verbatim>\<open>BigNumber\<close> objects converts both to
  primitives first. The class has no \<^verbatim>\<open>valueOf\<close> of its own, so each operand becomes its
  \<^verbatim>\<open>toString()\<close>, the decimal numeral, and two strings are compared code unit by code unit.
\<close>

fun decimalDigits :: "nat \<Rightarrow> string" where
  "decimalDigits n =
     (if n < 10 then [''0123456789'' ! n]
      else decimalDigits (n div 10) @ [''0123456789'' ! (n mod 10)])"

definition bigNumberToString :: "int \<Rightarrow> string" where
  "bigNumberToString x =
     (if x < 0 then CHR ''-'' # decimalDigits (nat (- x)) else decimalDigits (nat x))"

fun js_string_lt :: "string \<Rightarrow> string \<Rightarrow> bool" where
  "js_string_lt [] [] = False"
| "js_string_lt [] (d # ds) = True"
| "js_string_lt (c # cs) [] = False"
| "js_string_lt (c # cs) (d # ds) =
     (if (of_char c :: nat) < of_char d then True
      else if (of_char d :: nat) < of_char c then False
      else js_string_lt cs ds)"

definition bigNumber_js_lt :: "int \<Rightarrow> int \<Rightarrow> bool" where
  "bigNumber_js_lt a b = js_string_lt (bigNumberToString a) (bigNumberToString b)"

text \<open>
  A JavaScript number that need not be an integer: a finite value, \<^verbatim>\<open>NaN\<close> or an infinity.
  Finite doubles are rationals; the rounding of an exact result to the nearest double is the
  parameter \<open>rnd\<close> of the operations below. The sign of zero is not kept: the one place it
  could show, a division by zero, only ever divides by a number converted from an integer or
  by \<open>max_window\<close>, neither of which is a negative zero.
\<close>

datatype number = Fin rat | NaN | PosInf | NegInf

fun num_div :: "(rat \<Rightarrow> number) \<Rightarrow> number \<Rightarrow> number \<Rightarrow> number" where
  "num_div rnd (Fin a) (Fin b) =
     (if b = 0 then (if a = 0 then NaN else if 0 < a then PosInf else NegInf)
      else rnd (a / b))"
| "num_div rnd (Fin a) PosInf = Fin 0"
| "num_div rnd (Fin a) NegInf = Fin 0"
| "num_div rnd PosInf (Fin b) = (if 0 \<le> b then PosInf else NegInf)"
| "num_div rnd NegInf (Fin b) = (if 0 \<le> b then NegInf else PosInf)"
| "num_div rnd _ _ = NaN"

fun num_mul :: "(rat \<Rightarrow> number) \<Rightarrow> number \<Rightarrow> number \<Rightarrow> number" where
  "num_mul rnd (Fin a) (Fin b) = rnd (a * b)"
| "num_mul rnd (Fin a) PosInf = (if a = 0 then NaN else if 0 < a then PosInf else NegInf)"
| "num_mul rnd (Fin a) NegInf = (if a = 0 then NaN else if 0 < a then NegInf else PosInf)"
| "num_mul rnd PosInf (Fin b) = (if b = 0 then NaN else if 0 < b then PosInf else NegInf)"
| "num_mul rnd NegInf (Fin b) = (if b = 0 then NaN else if 0 < b then NegInf else PosInf)"
| "num_mul rnd PosInf PosInf = PosInf"
| "num_mul rnd NegInf NegInf = PosInf"
| "num_mul rnd PosInf NegInf = NegInf"
| "num_mul rnd NegInf PosInf = NegInf"
| "num_mul rnd _ _ = NaN"

fun num_add :: "(rat \<Rightarrow> number) \<Rightarrow> number \<Rightarrow> number \<Rightarrow> number" where
  "num_add rnd (Fin a) (Fin b) = rnd (a + b)"
| "num_add rnd (Fin a) PosInf = PosInf"
| "num_add rnd (Fin a) NegInf = NegInf"
| "num_add rnd PosInf (Fin b) = PosInf"
| "num_add rnd NegInf (Fin b) = NegInf"
| "num_add rnd PosInf PosInf = PosInf"
| "num_add rnd NegInf NegInf = NegInf"
| "num_add rnd _ _ = NaN"

fun num_gt0 :: "number \<Rightarrow> bool" where
  "num_gt0 (Fin a) = (0 < a)"
| "num_gt0 PosInf = True"
| "num_gt0 _ = False"

section \<open>Packets, reader and writer\<close>

datatype PacketType = ST_DATA | ST_FIN | ST_STATE | ST_RESET | ST_SYN

datatype ConnectionState = SynSent | SynRecv | Connected | GotFin | Closed | Reset

datatype SocketType = Read | Write

text \<open>The header fields of a packet that the socket reads, and the payload.\<close>

record Packet =
  hdr_seqNr :: int
  hdr_ackNr :: int
  hdr_timestampMicroseconds :: int
  payload :: bytes

text \<open>
  Modelled from the spec: the class \<^verbatim>\<open>ContentReader\<close> (\<^verbatim>\<open>Protocol/read/ContentReader.js\<close>) is
  not among the sources. The specification says that \<^verbatim>\<open>add_packet\<close> buffers the packet and that
  \<^verbatim>\<open>run\<close> returns the assembled content or fails. The reader is its starting sequence number
  and the packets added so far, in arrival order; \<^verbatim>\<open>run\<close> is a parameter of the handler
  that calls it.
\<close>

record ContentReader =
  startingSeqNr :: int
  packets :: "Packet list"

definition ContentReader_new :: "int \<Rightarrow> ContentReader" where
  "ContentReader_new n = \<lparr> startingSeqNr = n, packets = [] \<rparr>"

definition addPacket :: "ContentReader \<Rightarrow> Packet \<Rightarrow> ContentReader" where
  "addPacket r p = r\<lparr> packets := packets r @ [p] \<rparr>"

text \<open>
  Of the class \<^verbatim>\<open>ContentWriter\<close> (not among the sources either) the socket reads the flag
  \<^verbatim>\<open>writing\<close> and calls \<^verbatim>\<open>start()\<close>; the call is recorded as an event.
\<close>

record ContentWriter =
  writing :: bool

text \<open>
  What a socket method hands to its collaborators, in program order: a datagram given to the
  transport (\<^verbatim>\<open>utp.emit('Send', ...)\<close> in \<^verbatim>\<open>sendPacket\<close>), and the calls into code that is
  outside the socket class. A method's result is the socket as the method's own statements
  leave it; what a collaborator does to the socket in return is not part of the method.
\<close>

datatype event =
    Send Packet PacketType
  | SendSynAckPacketCall
  | SendAckPacketCall
  | UtpSendStatePacket
  | UtpSendSelectiveAckPacket "bool list"
  | WriterStart
  | ReaderRun

section \<open>The socket\<close>

record BaseDelay =
  delay :: int
  timestamp :: int

text \<open>
  \<^verbatim>\<open>outBuffer\<close> is a JavaScript \<^verbatim>\<open>Map\<close> from sequence number to send time: an association
  list, \<^verbatim>\<open>set\<close> being \<^const>\<open>AList.update\<close> and \<^verbatim>\<open>size\<close> the number of distinct keys.
  \<^verbatim>\<open>timeoutCounter\<close> is the pending timer, kept as the delay it was armed with; \<open>None\<close> when
  no timer is pending (never armed, or cleared by \<^verbatim>\<open>clearTimeout\<close>).
  \<^verbatim>\<open>cur_window\<close> only ever holds 0 or a buffer size times the packet size and is an integer;
  \<^verbatim>\<open>max_window\<close> is also assigned the result of a floating-point computation.
\<close>

record UtpSocket =
  sock_type :: SocketType
  seqNr :: int
  ackNr :: int
  finNr :: "int option"
  state :: "ConnectionState option"
  max_window :: number
  cur_window :: int
  reply_micro :: int
  rtt :: int
  rtt_var :: int
  timeout :: int
  timeoutCounter :: "int option"
  baseDelay :: BaseDelay
  ourDelay :: int
  writer :: "ContentWriter option"
  reader :: "ContentReader option"
  readerContent :: "bytes option"
  dataNrs :: "int list"
  ackNrs :: "int list"
  outBuffer :: "(int \<times> int) list"

definition map_size :: "(int \<times> int) list \<Rightarrow> int" where
  "map_size m = int (length (remdups (map fst m)))"

text \<open>
  The constructor. \<^verbatim>\<open>DEFAULT_PACKET_SIZE\<close> is imported from a file that is not among the
  sources; it is the parameter \<open>dps\<close> of every definition that uses it.
\<close>

definition UtpSocket_new :: "int \<Rightarrow> int \<Rightarrow> int \<Rightarrow> SocketType \<Rightarrow> UtpSocket" where
  "UtpSocket_new dps seq ack ty =
     \<lparr> sock_type = ty, seqNr = seq, ackNr = ack, finNr = None, state = None,
       max_window = Fin (of_int (dps * 3)), cur_window = 0, reply_micro = 0,
       rtt = 1000, rtt_var = 0, timeout = 1000, timeoutCounter = None,
       baseDelay = \<lparr> delay = 0, timestamp = 0 \<rparr>, ourDelay = 0,
       writer = None, reader = None, readerContent = Some [],
       dataNrs = [], ackNrs = [], outBuffer = [] \<rparr>"

subsection \<open>Sending\<close>

definition sendPacket :: "Packet \<Rightarrow> PacketType \<Rightarrow> event list" where
  "sendPacket p t = [Send p t]"

definition sendSynPacket :: "UtpSocket \<Rightarrow> Packet \<Rightarrow> UtpSocket \<times> event list" where
  "sendSynPacket s p =
     (s\<lparr> outBuffer := AList.update 0 (hdr_timestampMicroseconds p) (outBuffer s),
         state := Some SynSent \<rparr>,
      sendPacket p ST_SYN)"

definition sendSynAckPacket :: "UtpSocket \<Rightarrow> Packet \<Rightarrow> UtpSocket \<times> event list" where
  "sendSynAckPacket s p =
     (s\<lparr> outBuffer := AList.update 0 (hdr_timestampMicroseconds p) (outBuffer s),
         seqNr := seqNr s + 1 \<rparr>,
      sendPacket p ST_STATE)"

definition sendDataPacket :: "int \<Rightarrow> UtpSocket \<Rightarrow> Packet \<Rightarrow> UtpSocket \<times> event list" where
  "sendDataPacket dps s p =
     (let s1 = s\<lparr> state := Some Connected \<rparr>;
          s2 = s1\<lparr> outBuffer :=
                     AList.update (hdr_seqNr p) (hdr_timestampMicroseconds p) (outBuffer s1) \<rparr>;
          s3 = s2\<lparr> cur_window := map_size (outBuffer s2) * dps \<rparr>
      in (s3\<lparr> seqNr := seqNr s3 + 1 \<rparr>, sendPacket p ST_DATA))"

definition sendStatePacket :: "UtpSocket \<Rightarrow> Packet \<Rightarrow> UtpSocket \<times> event list" where
  "sendStatePacket s p = (s, sendPacket p ST_STATE)"

definition sendResetPacket :: "UtpSocket \<Rightarrow> Packet \<Rightarrow> UtpSocket \<times> event list" where
  "sendResetPacket s p = (s\<lparr> state := Some Reset \<rparr>, sendPacket p ST_RESET)"

definition sendFinPacket :: "UtpSocket \<Rightarrow> Packet \<Rightarrow> UtpSocket \<times> event list" where
  "sendFinPacket s p = (s\<lparr> finNr := Some (hdr_seqNr p) \<rparr>, sendPacket p ST_FIN)"

subsection \<open>Receiving\<close>

definition handleSynPacket :: "UtpSocket \<Rightarrow> UtpSocket \<times> event list" where
  "handleSynPacket s = (s\<lparr> state := Some SynRecv \<rparr>, [SendSynAckPacketCall])"

text \<open>
  \<^verbatim>\<open>compare\<close> sorts both number lists in place and compares their JSON renderings, which
  are equal exactly when the sorted lists are.
\<close>

definition compare :: "UtpSocket \<Rightarrow> UtpSocket \<times> bool" where
  "compare s =
     (let s1 = s\<lparr> dataNrs := sort (dataNrs s) \<rparr>;
          s2 = s1\<lparr> ackNrs := sort (ackNrs s1) \<rparr>
      in (s2, dataNrs s2 = ackNrs s2))"

text \<open>What \<^verbatim>\<open>handleStatePacket\<close> returns: \<^verbatim>\<open>true\<close>, the packet of the reply, or nothing.\<close>

datatype state_result = ReturnsTrue | ReturnsPacket | ReturnsUndefined

definition handleStatePacket ::
  "int \<Rightarrow> UtpSocket \<Rightarrow> Packet \<Rightarrow> UtpSocket \<times> event list \<times> state_result" where
  "handleStatePacket dps s p =
     (if Some (hdr_ackNr p) = finNr s then
        (s\<lparr> timeoutCounter := None, state := Some Closed \<rparr>, [], ReturnsTrue)
      else if sock_type s = Read then
        (s\<lparr> state := Some Connected \<rparr>, [SendAckPacketCall], ReturnsPacket)
      else
        (let s1 = s\<lparr> state := Some Connected \<rparr>;
             s2 = (case writer s1 of
                     Some w \<Rightarrow> s1\<lparr> cur_window := map_size (outBuffer s1) * dps \<rparr>
                   | None \<Rightarrow> s1);
             (s3, equal) = compare s2
         in if equal then (s3, [], ReturnsTrue)
            else (case writer s3 of
                    Some w \<Rightarrow> (s3, if writing w then [WriterStart] else [], ReturnsUndefined)
                  | None \<Rightarrow> (s3, [], ReturnsUndefined))))"

text \<open>
  Assigning \<^verbatim>\<open>window[k] = true\<close>: an index inside the array replaces the element, an index
  past the end extends the array (the holes in between are not \<^verbatim>\<open>true\<close>), and a negative
  index names a property that is no element. \<^verbatim>\<open>bitmap\<close> is imported from a file that is not
  among the sources and is a parameter; an index past its end reads \<^verbatim>\<open>undefined\<close>, and the
  assignment then touches no element either.
\<close>

definition js_array_set_true :: "bool list \<Rightarrow> int \<Rightarrow> bool list" where
  "js_array_set_true w k =
     (if k < 0 then w
      else if nat k < length w then w[nat k := True]
      else w @ replicate (nat k - length w) False @ [True])"

definition selectiveAckStep :: "int list \<Rightarrow> UtpSocket \<Rightarrow> bool list \<Rightarrow> nat \<Rightarrow> bool list" where
  "selectiveAckStep bitmap s w i =
     (if ackNr s + 1 + int i \<in> set (ackNrs s) then
        (if i < length bitmap then js_array_set_true w (bitmap ! i - 1) else w)
      else w)"

text \<open>
  The result is the boolean window that the SSZ library then packs into four bytes, bit \<open>k\<close>
  of the bit vector being \<open>window[k]\<close>.
\<close>

definition generateSelectiveAckBitMask :: "int list \<Rightarrow> UtpSocket \<Rightarrow> bool list" where
  "generateSelectiveAckBitMask bitmap s =
     foldl (selectiveAckStep bitmap s) (replicate 32 False) [0..<32]"

text \<open>
  \<^verbatim>\<open>sorted.find((n, i) => sorted[i + 1] !== n + 1)\<close>: the first element whose successor in the
  list is not its successor as a number. The element after the last is \<^verbatim>\<open>undefined\<close>, so the
  last element always qualifies, and only the empty list has no such element.
\<close>

fun find_run_end :: "int list \<Rightarrow> int option" where
  "find_run_end [] = None"
| "find_run_end [n] = Some n"
| "find_run_end (n # m # rest) = (if m \<noteq> n + 1 then Some n else find_run_end (m # rest))"

text \<open>
  \<^verbatim>\<open>Math.max(...xs)\<close>; of no arguments it is \<^verbatim>\<open>-Infinity\<close>, here \<open>None\<close>. In
  \<^verbatim>\<open>handleDataPacket\<close> it is the alternative of \<^verbatim>\<open>??\<close>, taken when the search finds nothing;
  the list searched there has just received an element, so the search always finds one.
\<close>

definition math_max :: "int list \<Rightarrow> int option" where
  "math_max xs = (case xs of [] \<Rightarrow> None | y # ys \<Rightarrow> Some (fold max ys y))"

definition handleDataPacket ::
  "int list \<Rightarrow> UtpSocket \<Rightarrow> Packet \<Rightarrow> UtpSocket \<times> event list" where
  "handleDataPacket bitmap s p =
     (let s1 = s\<lparr> state := Some Connected \<rparr>;
          expected = (ackNr s1 + 1 = hdr_seqNr p);
          s2 = s1\<lparr> seqNr := seqNr s1 + 1 \<rparr>;
          s3 = (case reader s2 of
                  None \<Rightarrow> s2\<lparr> reader := Some (ContentReader_new (hdr_seqNr p)) \<rparr>
                | Some r \<Rightarrow> s2);
          s4 = s3\<lparr> ackNrs := ackNrs s3 @ [hdr_seqNr p] \<rparr>;
          s5 = s4\<lparr> reader := map_option (\<lambda>r. addPacket r p) (reader s4) \<rparr>
      in if expected then
           (let s6 = s5\<lparr> ackNrs := sort (ackNrs s5) \<rparr>;
                found = (case find_run_end (ackNrs s6) of
                           Some n \<Rightarrow> Some n
                         | None \<Rightarrow> math_max (ackNrs s6))
            in (case found of
                  Some n \<Rightarrow> (s6\<lparr> ackNr := n \<rparr>, [UtpSendStatePacket])
                | None \<Rightarrow> (s6, [UtpSendStatePacket])))
         else
           (s5, [UtpSendSelectiveAckPacket (generateSelectiveAckBitMask bitmap s5)]))"

text \<open>
  \<^verbatim>\<open>handleFinPacket\<close> calls \<^verbatim>\<open>this.reader!.run()\<close>: without a reader the call is a type
  error, and a failing \<^verbatim>\<open>run\<close> rejects the handler; both after the state was set.
\<close>

definition handleFinPacket ::
  "(ContentReader \<Rightarrow> error + bytes) \<Rightarrow> UtpSocket \<Rightarrow> Packet
     \<Rightarrow> UtpSocket \<times> event list \<times> (error + bytes)" where
  "handleFinPacket run s p =
     (let s1 = s\<lparr> state := Some GotFin \<rparr>
      in (case reader s1 of
            None \<Rightarrow> (s1, [], Inl TypeError)
          | Some r \<Rightarrow>
              (case run r of
                 Inl e \<Rightarrow> (s1, [ReaderRun], Inl e)
               | Inr content \<Rightarrow>
                   (let s2 = s1\<lparr> readerContent := Some content \<rparr>;
                        s3 = s2\<lparr> seqNr := seqNr s2 + 1 \<rparr>;
                        s4 = s3\<lparr> ackNr := hdr_seqNr p \<rparr>
                    in (s4\<lparr> timeoutCounter := None \<rparr>,
                        [ReaderRun, UtpSendStatePacket], Inr content)))))"

subsection \<open>Round-trip time, timeout and delay\<close>

text \<open>
  \<^verbatim>\<open>setTimeout(f, this.timeout.toNumber())\<close>: the conversion is evaluated first and may throw,
  in which case no timer is armed. The runtime replaces a delay below 1 or above
  \<open>2\<^sup>3\<^sup>1 - 1\<close> by 1.
\<close>

definition setTimeout_delay :: "int \<Rightarrow> int" where
  "setTimeout_delay ms = (if ms < 1 \<or> 2147483647 < ms then 1 else ms)"

definition armTimeout :: "UtpSocket \<Rightarrow> UtpSocket \<times> error option" where
  "armTimeout s =
     (case toNumber (timeout s) of
        Inl e \<Rightarrow> (s, Some e)
      | Inr ms \<Rightarrow> (s\<lparr> timeoutCounter := Some (setTimeout_delay ms) \<rparr>, None))"

definition updateRTT :: "UtpSocket \<Rightarrow> int \<Rightarrow> UtpSocket \<times> error option" where
  "updateRTT s packetRTT =
     (let delta = rtt s - packetRTT;
          s1 = s\<lparr> rtt_var := rtt_var s + (\<bar>delta\<bar> - rtt_var s) sdiv 4 \<rparr>;
          s2 = s1\<lparr> rtt := rtt s1 + (packetRTT - rtt s1) sdiv 8 \<rparr>;
          s3 = s2\<lparr> timeout := (if rtt s2 + rtt_var s2 * 4 > 500
                                 then rtt s2 + rtt_var s2 * 4 else 500) \<rparr>;
          s4 = s3\<lparr> timeoutCounter := None \<rparr>
      in armTimeout s4)"

text \<open>
  The timeout is handed to \<^verbatim>\<open>setTimeout\<close> and logged as \<^verbatim>\<open>ms\<close>: the number is a count of
  milliseconds, each a thousand microseconds.
\<close>

definition timeout_micros :: "UtpSocket \<Rightarrow> int" where
  "timeout_micros s = 1000 * timeout s"

definition throttle :: "int \<Rightarrow> UtpSocket \<Rightarrow> UtpSocket \<times> event list \<times> error option" where
  "throttle dps s =
     (let s1 = s\<lparr> max_window := Fin (of_int dps) \<rparr>;
          s2 = s1\<lparr> timeoutCounter := None \<rparr>;
          s3 = s2\<lparr> timeout := timeout s2 * 2 \<rparr>
      in (case writer s3 of
            None \<Rightarrow> (s3, [], None)
          | Some w \<Rightarrow>
              (if writing w then
                 (let (s4, err) = armTimeout s3 in (s4, [WriterStart], err))
               else (s3, [], None))))"

text \<open>
  \<^verbatim>\<open>updateDelay\<close>. The base delay is replaced when the difference of the two times exceeds
  the number 120000 (compared with \<^verbatim>\<open>gt\<close>), or else when \<^verbatim>\<open>delay < this.baseDelay.delay\<close>,
  the operator \<^verbatim>\<open><\<close> on two \<^verbatim>\<open>BigNumber\<close> objects. The window is then adjusted in
  floating point. \<^verbatim>\<open>MAX_CWND_INCREASE_PACKETS_PER_RTT\<close> is imported from a file that is not
  among the sources and is the parameter \<open>mcwnd\<close>.
\<close>

definition updateBaseDelay :: "UtpSocket \<Rightarrow> int \<Rightarrow> int \<Rightarrow> UtpSocket" where
  "updateBaseDelay s d timeReceived =
     (if timeReceived - timestamp (baseDelay s) > 120000 then
        s\<lparr> baseDelay := \<lparr> delay = d, timestamp = timeReceived \<rparr> \<rparr>
      else if bigNumber_js_lt d (delay (baseDelay s)) then
        s\<lparr> baseDelay := \<lparr> delay = d, timestamp = timeReceived \<rparr> \<rparr>
      else s)"

definition updateDelay ::
  "(rat \<Rightarrow> number) \<Rightarrow> int \<Rightarrow> UtpSocket \<Rightarrow> int \<Rightarrow> int \<Rightarrow> UtpSocket \<times> error option" where
  "updateDelay rnd mcwnd s ts timeReceived =
     (let d = timeReceived - ts;
          s1 = s\<lparr> reply_micro := d \<rparr>;
          s2 = s1\<lparr> ourDelay := d - delay (baseDelay s1) \<rparr>;
          s3 = updateBaseDelay s2 d timeReceived;
          offTarget = delay (baseDelay s3) - ourDelay s3
      in (case toNumber offTarget of
            Inl e \<Rightarrow> (s3, Some e)
          | Inr ot \<Rightarrow>
              (case toNumber (delay (baseDelay s3)) of
                 Inl e \<Rightarrow> (s3, Some e)
               | Inr bd \<Rightarrow>
                   (let delayFactor = num_div rnd (Fin (of_int ot)) (Fin (of_int bd));
                        windowFactor = num_div rnd (Fin (of_int (cur_window s3))) (max_window s3);
                        scaledGain =
                          num_mul rnd (num_mul rnd (Fin (of_int mcwnd)) delayFactor) windowFactor;
                        new_max =
                          (if num_gt0 (num_add rnd (max_window s3) scaledGain)
                           then num_add rnd (max_window s3) scaledGain else Fin 0)
                    in (s3\<lparr> max_window := new_max \<rparr>, None)))))"

section \<open>Content fetched over a transfer\<close>








text \<open>The value returned to the caller once the promise has resolved.\<close>

record find_content_result =
  content :: string
  utpTransfer :: bool

definition returnVal :: "bytes \<Rightarrow> find_content_result" where
  "returnVal c =
     \<lparr> content = (if length c > 0 then toHexString c else []), utpTransfer = True \<rparr>"

section \<open>Sample values\<close>

text \<open>
  A table of the expected shape (the numbers 1 to 32, each once; here each group of eight
  reversed), a socket constructor with a packet size of 1280, packets with a given sequence or
  acknowledgement number, and a reader function that returns the payloads in arrival order.
  They stand in for the parameters when a statement is evaluated.
\<close>

definition wellformed_bitmap :: "int list \<Rightarrow> bool" where
  "wellformed_bitmap bitmap =
     (length bitmap = 32 \<and> distinct bitmap \<and> list_all (\<lambda>b. 1 \<le> b \<and> b \<le> 32) bitmap)"

definition sample_bitmap :: "int list" where
  "sample_bitmap =
     [8, 7, 6, 5, 4, 3, 2, 1, 16, 15, 14, 13, 12, 11, 10, 9,
      24, 23, 22, 21, 20, 19, 18, 17, 32, 31, 30, 29, 28, 27, 26, 25]"

definition dataPacket :: "int \<Rightarrow> Packet" where
  "dataPacket n =
     \<lparr> hdr_seqNr = n, hdr_ackNr = 0, hdr_timestampMicroseconds = 0, payload = [] \<rparr>"

definition statePacket :: "int \<Rightarrow> Packet" where
  "statePacket a =
     \<lparr> hdr_seqNr = 0, hdr_ackNr = a, hdr_timestampMicroseconds = 0, payload = [] \<rparr>"

definition payloads_in_order :: "ContentReader \<Rightarrow> error + bytes" where
  "payloads_in_order r = Inr (concat (map payload (packets r)))"

definition reader_socket :: "UtpSocket" where
  "reader_socket = UtpSocket_new 1280 1 100 Read"

definition writer_socket :: "UtpSocket" where
  "writer_socket = (UtpSocket_new 1280 1 100 Write)\<lparr> writer := Some \<lparr> writing = True \<rparr> \<rparr>"


section \<open>The content database: store then get\<close>

text \<open>
  C10. \<^verbatim>\<open>storeContent\<close> returns \<^verbatim>\<open>true\<close>; \<^verbatim>\<open>getContent\<close> with the same key then returns the
  bytes that were stored, and after a second \<^verbatim>\<open>storeContent\<close> under the same key it returns
  the bytes stored last.
\<close>

theorem storeContent_then_getContent:
  "snd (storeContent d k c) = True
   \<and> getContent (fst (storeContent d k c)) k = Some c
   \<and> getContent (fst (storeContent (fst (storeContent d k c)) k c')) k = Some c'"
  by (simp add: storeContent_def getContent_def)

section \<open>Timeout and throttle\<close>

lemma armTimeout_fields:
  "timeout (fst (armTimeout s)) = timeout s"
  "max_window (fst (armTimeout s)) = max_window s"
  "rtt (fst (armTimeout s)) = rtt s"
  "rtt_var (fst (armTimeout s)) = rtt_var s"
  by (simp_all add: armTimeout_def split: sum.splits)

text \<open>
  C5. With \<open>delta = rtt - packet_rtt\<close>, \<^verbatim>\<open>updateRTT\<close> sets \<open>rtt_var\<close> to
  \<open>rtt_var + (|delta| - rtt_var) / 4\<close>, then \<open>rtt\<close> to \<open>rtt + (packet_rtt - rtt) / 8\<close> (the
  quotients being those of \<^verbatim>\<open>BigNumber.div\<close>), and the timeout to the larger of 500
  milliseconds, that is 500000 microseconds, and \<open>rtt + 4 * rtt_var\<close>. After every update
  the timeout is at least 500 milliseconds.
\<close>

theorem updateRTT_estimators_and_floor:
  "rtt_var (fst (updateRTT s p)) = rtt_var s + (\<bar>rtt s - p\<bar> - rtt_var s) sdiv 4
   \<and> rtt (fst (updateRTT s p)) = rtt s + (p - rtt s) sdiv 8
   \<and> timeout (fst (updateRTT s p))
       = max 500 (rtt (fst (updateRTT s p)) + 4 * rtt_var (fst (updateRTT s p)))
   \<and> 500 \<le> timeout (fst (updateRTT s p))
   \<and> timeout_micros (fst (updateRTT s p))
       = max 500000 (1000 * (rtt (fst (updateRTT s p)) + 4 * rtt_var (fst (updateRTT s p))))
   \<and> 500000 \<le> timeout_micros (fst (updateRTT s p))"
  by (simp add: updateRTT_def Let_def armTimeout_fields timeout_micros_def max_def)

text \<open>
  C6. After \<^verbatim>\<open>throttle\<close> the maximal window is one default packet size and the timeout is
  twice what it was, hence at least twice what it was.
\<close>

theorem throttle_window_and_timeout:
  "max_window (fst (throttle dps s)) = Fin (of_int dps)
   \<and> timeout (fst (throttle dps s)) = 2 * timeout s
   \<and> 2 * timeout s \<le> timeout (fst (throttle dps s))"
  by (simp add: throttle_def Let_def armTimeout_fields case_prod_beta split: option.splits)

section \<open>The FIN handler\<close>

lemma handleFinPacket_state: "state (fst (handleFinPacket run s p)) = Some GotFin"
  by (simp add: handleFinPacket_def Let_def split: option.splits sum.splits)

lemma handleFinPacket_finNr: "finNr (fst (handleFinPacket run s p)) = finNr s"
  by (simp add: handleFinPacket_def Let_def split: option.splits sum.splits)

text \<open>
  C2, as the code has it. \<^verbatim>\<open>handleFinPacket\<close> sets the state to \<open>GotFin\<close> and leaves it there: it
  does not set \<open>Closed\<close>. It never assigns \<open>finNr\<close>. When the socket has a reader whose \<^verbatim>\<open>run\<close>
  succeeds, the handler stores the assembled content, adds one to \<open>seqNr\<close>, sets \<open>ackNr\<close> (not
  \<open>finNr\<close>) to the sequence number of the FIN, asks the transport for a STATE packet and clears
  the timer. Without a reader the call of \<^verbatim>\<open>run\<close> is a type error, raised after the state
  was set.
\<close>

theorem handleFinPacket_effect:
  "state (fst (handleFinPacket run s p)) = Some GotFin
   \<and> finNr (fst (handleFinPacket run s p)) = finNr s
   \<and> (reader s = Some r \<and> run r = Inr c \<longrightarrow>
        handleFinPacket run s p =
          (s\<lparr> state := Some GotFin, readerContent := Some c, seqNr := seqNr s + 1,
              ackNr := hdr_seqNr p, timeoutCounter := None \<rparr>,
           [ReaderRun, UtpSendStatePacket], Inr c))
   \<and> (reader s = None \<longrightarrow>
        handleFinPacket run s p = (s\<lparr> state := Some GotFin \<rparr>, [], Inl TypeError))"
  by (simp add: handleFinPacket_state handleFinPacket_finNr)
     (simp add: handleFinPacket_def Let_def)

theorem handleFinPacket_effect_witness:
  "reader (reader_socket\<lparr> reader := Some (ContentReader_new 101) \<rparr>) = Some (ContentReader_new 101)
   \<and> payloads_in_order (ContentReader_new 101) = Inr []
   \<and> state (fst (handleFinPacket payloads_in_order
        (reader_socket\<lparr> reader := Some (ContentReader_new 101) \<rparr>) (dataPacket 105))) = Some GotFin
   \<and> ackNr (fst (handleFinPacket payloads_in_order
        (reader_socket\<lparr> reader := Some (ContentReader_new 101) \<rparr>) (dataPacket 105))) = 105
   \<and> fst (snd (handleFinPacket payloads_in_order
        (reader_socket\<lparr> reader := Some (ContentReader_new 101) \<rparr>) (dataPacket 105)))
       = [ReaderRun, UtpSendStatePacket]"
  using handleFinPacket_effect [of payloads_in_order
      "reader_socket\<lparr> reader := Some (ContentReader_new 101) \<rparr>" "dataPacket 105"
      "ContentReader_new 101" "[]"]
  by (simp add: payloads_in_order_def ContentReader_new_def dataPacket_def)

text \<open>
  A reader socket with a reader receives a FIN with sequence number 105: afterwards the state
  is not \<open>Closed\<close> and \<open>finNr\<close> is not 105.
\<close>

theorem handleFinPacket_counterexample:
  "state (fst (handleFinPacket payloads_in_order
        (reader_socket\<lparr> reader := Some (ContentReader_new 101) \<rparr>) (dataPacket 105))) \<noteq> Some Closed
   \<and> finNr (fst (handleFinPacket payloads_in_order
        (reader_socket\<lparr> reader := Some (ContentReader_new 101) \<rparr>) (dataPacket 105))) \<noteq> Some 105"
  by (simp add: handleFinPacket_def Let_def payloads_in_order_def ContentReader_new_def
        dataPacket_def reader_socket_def UtpSocket_new_def)

section \<open>The DATA and STATE handlers\<close>

lemma handleDataPacket_state: "state (fst (handleDataPacket bitmap s p)) = Some Connected"
  by (simp add: handleDataPacket_def Let_def split: option.splits)

lemma handleDataPacket_seqNr: "seqNr (fst (handleDataPacket bitmap s p)) = seqNr s + 1"
  by (simp add: handleDataPacket_def Let_def split: option.splits)

lemma handleDataPacket_received:
  "set (ackNrs (fst (handleDataPacket bitmap s p))) = insert (hdr_seqNr p) (set (ackNrs s))"
  by (simp add: handleDataPacket_def Let_def split: option.splits)

lemma handleDataPacket_reply: "length (snd (handleDataPacket bitmap s p)) = 1"
  by (simp add: handleDataPacket_def Let_def split: option.splits)

lemma handleStatePacket_state:
  "state (fst (handleStatePacket dps s p))
     = (if Some (hdr_ackNr p) = finNr s then Some Closed else Some Connected)"
  by (simp add: handleStatePacket_def compare_def Let_def split: option.splits)

text \<open>
  C4, as the code has it. The handlers do not look at the state they find, so a socket that is
  \<open>Closed\<close> or \<open>Reset\<close> is treated like any other: \<^verbatim>\<open>handleDataPacket\<close> sets the state to
  \<open>Connected\<close>, adds one to \<open>seqNr\<close>, records the sequence number of the packet and sends one
  reply; \<^verbatim>\<open>handleStatePacket\<close> sets the state to \<open>Closed\<close> when the packet acknowledges the
  FIN and to \<open>Connected\<close> otherwise.
\<close>

theorem handlers_ignore_terminal_state:
  "state (fst (handleDataPacket bitmap s p)) = Some Connected
   \<and> seqNr (fst (handleDataPacket bitmap s p)) = seqNr s + 1
   \<and> set (ackNrs (fst (handleDataPacket bitmap s p))) = insert (hdr_seqNr p) (set (ackNrs s))
   \<and> length (snd (handleDataPacket bitmap s p)) = 1
   \<and> state (fst (handleStatePacket dps s q))
        = (if Some (hdr_ackNr q) = finNr s then Some Closed else Some Connected)"
  by (simp add: handleDataPacket_state handleDataPacket_seqNr handleDataPacket_received
        handleDataPacket_reply handleStatePacket_state)

text \<open>
  A closed reader socket that receives the DATA packet 101 becomes \<open>Connected\<close>, acknowledges
  101 and replies; a reset one that receives a STATE packet becomes \<open>Connected\<close> and replies.
\<close>

theorem terminal_socket_counterexample:
  "state (reader_socket\<lparr> state := Some Closed \<rparr>) = Some Closed
   \<and> state (fst (handleDataPacket sample_bitmap (reader_socket\<lparr> state := Some Closed \<rparr>)
         (dataPacket 101))) = Some Connected
   \<and> ackNr (fst (handleDataPacket sample_bitmap (reader_socket\<lparr> state := Some Closed \<rparr>)
         (dataPacket 101))) = 101
   \<and> snd (handleDataPacket sample_bitmap (reader_socket\<lparr> state := Some Closed \<rparr>)
         (dataPacket 101)) = [UtpSendStatePacket]
   \<and> state (fst (handleStatePacket 1280 (reader_socket\<lparr> state := Some Reset \<rparr>)
         (statePacket 1))) = Some Connected
   \<and> fst (snd (handleStatePacket 1280 (reader_socket\<lparr> state := Some Reset \<rparr>)
         (statePacket 1))) = [SendAckPacketCall]"
  by (simp add: handleDataPacket_def handleStatePacket_def Let_def reader_socket_def
        UtpSocket_new_def dataPacket_def statePacket_def)

section \<open>The cumulative acknowledgement\<close>

lemma handleDataPacket_reader:
  "map_option packets (reader (fst (handleDataPacket bitmap s p)))
     = Some (case reader s of None \<Rightarrow> [p] | Some r \<Rightarrow> packets r @ [p])"
  by (simp add: handleDataPacket_def Let_def addPacket_def ContentReader_new_def
        split: option.splits)

lemma handleDataPacket_out_of_order:
  assumes "hdr_seqNr p \<noteq> ackNr s + 1"
  shows "ackNr (fst (handleDataPacket bitmap s p)) = ackNr s"
    and "ackNrs (fst (handleDataPacket bitmap s p)) = ackNrs s @ [hdr_seqNr p]"
    and "snd (handleDataPacket bitmap s p)
           = [UtpSendSelectiveAckPacket
                (generateSelectiveAckBitMask bitmap (fst (handleDataPacket bitmap s p)))]"
  using assms by (auto simp add: handleDataPacket_def Let_def split: option.splits)

lemma find_run_end_nonempty: "xs \<noteq> [] \<Longrightarrow> find_run_end xs \<noteq> None"
  by (induction xs rule: find_run_end.induct) simp_all

lemma handleDataPacket_in_order:
  assumes "hdr_seqNr p = ackNr s + 1"
  shows "snd (handleDataPacket bitmap s p) = [UtpSendStatePacket]"
    and "ackNrs (fst (handleDataPacket bitmap s p)) = sort (ackNrs s @ [hdr_seqNr p])"
    and "find_run_end (sort (ackNrs s @ [hdr_seqNr p]))
           = Some (ackNr (fst (handleDataPacket bitmap s p)))"
proof -
  have ne: "find_run_end (sort (ackNrs s @ [ackNr s + 1])) \<noteq> None"
    by (rule find_run_end_nonempty) (simp add: sort_conv_fold)
  then obtain m where m: "find_run_end (sort (ackNrs s @ [ackNr s + 1])) = Some m"
    by blast
  from assms m show "snd (handleDataPacket bitmap s p) = [UtpSendStatePacket]"
    by (cases "reader s") (simp_all add: handleDataPacket_def Let_def)
  from assms m show "ackNrs (fst (handleDataPacket bitmap s p)) = sort (ackNrs s @ [hdr_seqNr p])"
    by (cases "reader s") (simp_all add: handleDataPacket_def Let_def)
  from assms m show "find_run_end (sort (ackNrs s @ [hdr_seqNr p]))
           = Some (ackNr (fst (handleDataPacket bitmap s p)))"
    by (cases "reader s") (simp_all add: handleDataPacket_def Let_def)
qed

text \<open>
  On a strictly increasing list the search returns the end of the run of consecutive numbers
  that starts at the head.
\<close>

lemma find_run_end_strictly_sorted:
  assumes "sorted (n # xs)" and "distinct (n # xs)"
  shows "\<exists>m. find_run_end (n # xs) = Some m \<and> n \<le> m \<and> {n..m} \<subseteq> set (n # xs)
             \<and> m + 1 \<notin> set (n # xs)"
  using assms
proof (induction xs arbitrary: n)
  case Nil
  then show ?case by simp
next
  case (Cons k xs)
  from Cons.prems have nk: "n < k" and above: "\<forall>x\<in>set xs. k \<le> x"
    and rest: "sorted (k # xs)" "distinct (k # xs)"
    by auto
  show ?case
  proof (cases "k = n + 1")
    case False
    with nk above have "n + 1 \<notin> set (n # k # xs)" by auto
    with False show ?thesis by simp
  next
    case True
    from Cons.IH [OF rest] obtain m where m: "find_run_end (k # xs) = Some m" "k \<le> m"
      "{k..m} \<subseteq> set (k # xs)" "m + 1 \<notin> set (k # xs)" by blast
    from True m(2) have "{n..m} = insert n {k..m}" by auto
    with m(3) have "{n..m} \<subseteq> set (n # k # xs)" by auto
    moreover from True m(2,4) have "m + 1 \<notin> set (n # k # xs)" by auto
    ultimately show ?thesis using True m(1,2) by auto
  qed
qed

text \<open>
  Where the claim about the in-order case holds: when the numbers received so far are all
  different and all beyond the expected one, the new \<open>ackNr\<close> is the largest number \<open>m\<close> such
  that everything from the expected number up to \<open>m\<close> has been received.
\<close>

lemma handleDataPacket_in_order_without_duplicates:
  assumes exp: "hdr_seqNr p = ackNr s + 1"
    and dist: "distinct (ackNrs s)"
    and beyond: "list_all (\<lambda>x. ackNr s + 1 < x) (ackNrs s)"
  shows "ackNr s + 1 \<le> ackNr (fst (handleDataPacket bitmap s p))
     \<and> {ackNr s + 1 .. ackNr (fst (handleDataPacket bitmap s p))}
          \<subseteq> set (ackNrs (fst (handleDataPacket bitmap s p)))
     \<and> ackNr (fst (handleDataPacket bitmap s p)) + 1
          \<notin> set (ackNrs (fst (handleDataPacket bitmap s p)))"
proof -
  let ?xs = "sort (ackNrs s @ [ackNr s + 1])"
  from beyond have gt: "\<forall>x\<in>set (ackNrs s). ackNr s + 1 < x" by (simp add: list_all_iff)
  have set_xs: "set ?xs = insert (ackNr s + 1) (set (ackNrs s))" by simp
  have sorted_xs: "sorted ?xs" by simp
  from dist gt have dist_xs: "distinct ?xs" by (auto simp: distinct_sort)
  have "?xs \<noteq> []" by (simp add: sort_conv_fold)
  then obtain n ys where xs: "?xs = n # ys" by (cases ?xs) auto
  from sorted_xs xs have "\<forall>x\<in>set ?xs. n \<le> x" by auto
  moreover from xs have "n \<in> set ?xs" by simp
  ultimately have n: "n = ackNr s + 1" using gt set_xs by force
  from find_run_end_strictly_sorted [of n ys] sorted_xs dist_xs xs
  obtain m where m: "find_run_end ?xs = Some m" "n \<le> m" "{n..m} \<subseteq> set ?xs" "m + 1 \<notin> set ?xs"
    by auto
  from handleDataPacket_in_order(2,3) [OF exp, of bitmap] exp m(1)
  have "ackNr (fst (handleDataPacket bitmap s p)) = m"
    and "ackNrs (fst (handleDataPacket bitmap s p)) = ?xs" by simp_all
  with m n show ?thesis by simp
qed

text \<open>
  C3, evaluated. A reader socket with \<open>ackNr = 100\<close> receives the DATA packets 101, 101 again,
  and 102. The packet 102 is the expected one and everything up to 102 has been received,
  but the duplicate 101 ends the search for the run in the sorted list at 101, and \<open>ackNr\<close>
  stays 101.
\<close>

theorem handleDataPacket_duplicate_stalls_ackNr:
  "ackNr (fst (handleDataPacket bitmap reader_socket (dataPacket 101))) = 101
   \<and> ackNrs (fst (handleDataPacket bitmap
        (fst (handleDataPacket bitmap
          (fst (handleDataPacket bitmap reader_socket (dataPacket 101)))
          (dataPacket 101)))
        (dataPacket 102))) = [101, 101, 102]
   \<and> ackNr (fst (handleDataPacket bitmap
        (fst (handleDataPacket bitmap
          (fst (handleDataPacket bitmap reader_socket (dataPacket 101)))
          (dataPacket 101)))
        (dataPacket 102))) = 101"
  by (simp add: handleDataPacket_def Let_def reader_socket_def UtpSocket_new_def dataPacket_def)

section \<open>The selective-acknowledgement window\<close>

lemma selectiveAck_prefix:
  assumes len: "length bitmap = 32" and rng: "list_all (\<lambda>b. 1 \<le> b \<and> b \<le> 32) bitmap"
  shows "n \<le> 32 \<Longrightarrow>
     length (foldl (selectiveAckStep bitmap s) (replicate 32 False) [0..<n]) = 32
     \<and> (\<forall>k<32. foldl (selectiveAckStep bitmap s) (replicate 32 False) [0..<n] ! k
           = (\<exists>i<n. bitmap ! i = int k + 1 \<and> ackNr s + 1 + int i \<in> set (ackNrs s)))"
proof (induction n)
  case 0
  then show ?case by simp
next
  case (Suc n)
  let ?w = "foldl (selectiveAckStep bitmap s) (replicate 32 False) [0..<n]"
  from Suc have n: "n < 32" and lw: "length ?w = 32"
    and ih: "\<forall>k<32. ?w ! k
               = (\<exists>i<n. bitmap ! i = int k + 1 \<and> ackNr s + 1 + int i \<in> set (ackNrs s))"
    by simp_all
  from n len rng have b: "1 \<le> bitmap ! n" "bitmap ! n \<le> 32"
    by (simp_all add: list_all_length)
  have step: "foldl (selectiveAckStep bitmap s) (replicate 32 False) [0..<Suc n]
      = selectiveAckStep bitmap s ?w n" by simp
  show ?case
  proof (cases "ackNr s + 1 + int n \<in> set (ackNrs s)")
    case False
    then have "selectiveAckStep bitmap s ?w n = ?w" by (simp add: selectiveAckStep_def)
    with step lw ih False show ?thesis by (auto simp: less_Suc_eq)
  next
    case True
    from b have idx: "nat (bitmap ! n - 1) < 32" and nonneg: "\<not> bitmap ! n - 1 < 0"
      by simp_all
    from idx lw
    have "js_array_set_true ?w (bitmap ! n - 1) = ?w[nat (bitmap ! n - 1) := True]"
      unfolding js_array_set_true_def using nonneg by presburger
    with True n len
    have eq: "selectiveAckStep bitmap s ?w n = ?w[nat (bitmap ! n - 1) := True]"
      unfolding selectiveAckStep_def by presburger
    have "\<forall>k<32. (?w[nat (bitmap ! n - 1) := True]) ! k
        = (\<exists>i<Suc n. bitmap ! i = int k + 1 \<and> ackNr s + 1 + int i \<in> set (ackNrs s))"
    proof (intro allI impI)
      fix k :: nat assume k: "k < 32"
      show "(?w[nat (bitmap ! n - 1) := True]) ! k
        = (\<exists>i<Suc n. bitmap ! i = int k + 1 \<and> ackNr s + 1 + int i \<in> set (ackNrs s))"
      proof (cases "nat (bitmap ! n - 1) = k")
        case True
        with b have "bitmap ! n = int k + 1" by simp
        with True k lw \<open>ackNr s + 1 + int n \<in> set (ackNrs s)\<close> show ?thesis by auto
      next
        case False
        with b have ne: "bitmap ! n \<noteq> int k + 1" by auto
        from False k lw have "(?w[nat (bitmap ! n - 1) := True]) ! k = ?w ! k" by simp
        also from ih k
        have "\<dots> = (\<exists>i<n. bitmap ! i = int k + 1 \<and> ackNr s + 1 + int i \<in> set (ackNrs s))"
          by simp
        also from ne
        have "\<dots> = (\<exists>i<Suc n. bitmap ! i = int k + 1 \<and> ackNr s + 1 + int i \<in> set (ackNrs s))"
          by (auto simp: less_Suc_eq)
        finally show ?thesis .
      qed
    qed
    with step eq lw show ?thesis by simp
  qed
qed

text \<open>
  What the window holds, for a table that lists the numbers 1 to 32 once each: entry
  \<open>bitmap[i] - 1\<close> tells whether the sequence number \<open>ackNr + 1 + i\<close> was received.
\<close>

lemma generateSelectiveAckBitMask_bits:
  assumes "wellformed_bitmap bitmap" and "i < 32"
  shows "length (generateSelectiveAckBitMask bitmap s) = 32"
    and "generateSelectiveAckBitMask bitmap s ! nat (bitmap ! i - 1)
           = (ackNr s + 1 + int i \<in> set (ackNrs s))"
proof -
  from assms have len: "length bitmap = 32" and d: "distinct bitmap"
    and rng: "list_all (\<lambda>b. 1 \<le> b \<and> b \<le> 32) bitmap"
    by (simp_all add: wellformed_bitmap_def)
  from selectiveAck_prefix [OF len rng, of 32 s]
  have L: "length (generateSelectiveAckBitMask bitmap s) = 32"
    and C: "\<And>k. k < 32 \<Longrightarrow> generateSelectiveAckBitMask bitmap s ! k
           = (\<exists>j<32. bitmap ! j = int k + 1 \<and> ackNr s + 1 + int j \<in> set (ackNrs s))"
    by (simp_all add: generateSelectiveAckBitMask_def)
  show "length (generateSelectiveAckBitMask bitmap s) = 32" by (rule L)
  from assms(2) len rng have b: "1 \<le> bitmap ! i" "bitmap ! i \<le> 32"
    by (simp_all add: list_all_length)
  then have k: "nat (bitmap ! i - 1) < 32"
    and ki: "int (nat (bitmap ! i - 1)) + 1 = bitmap ! i" by simp_all
  have "(\<exists>j<32. bitmap ! j = bitmap ! i \<and> ackNr s + 1 + int j \<in> set (ackNrs s))
        = (ackNr s + 1 + int i \<in> set (ackNrs s))"
    using d len assms(2) by (auto simp: nth_eq_iff_index_eq)
  with C [OF k] ki show "generateSelectiveAckBitMask bitmap s ! nat (bitmap ! i - 1)
           = (ackNr s + 1 + int i \<in> set (ackNrs s))" by simp
qed

text \<open>
  C1, evaluated. With \<open>ackNr = 100\<close> and the received numbers 102, 104 and 133, the claim
  expects the entries \<open>bitmap[0] - 1\<close>, \<open>bitmap[2] - 1\<close> and \<open>bitmap[31] - 1\<close> to be set. The
  code tests \<open>ackNr + 1 + i\<close>, so it sets the entries \<open>bitmap[1] - 1\<close> and \<open>bitmap[3] - 1\<close>
  and leaves those three clear; 133 lies outside the 32 numbers it looks at.
\<close>

theorem selectiveAck_window_starts_at_ackNr_plus_one:
  assumes "wellformed_bitmap bitmap" and "ackNr s = 100" and "ackNrs s = [102, 104, 133]"
  shows "length (generateSelectiveAckBitMask bitmap s) = 32
     \<and> \<not> generateSelectiveAckBitMask bitmap s ! nat (bitmap ! 0 - 1)
     \<and> generateSelectiveAckBitMask bitmap s ! nat (bitmap ! 1 - 1)
     \<and> \<not> generateSelectiveAckBitMask bitmap s ! nat (bitmap ! 2 - 1)
     \<and> generateSelectiveAckBitMask bitmap s ! nat (bitmap ! 3 - 1)
     \<and> \<not> generateSelectiveAckBitMask bitmap s ! nat (bitmap ! 31 - 1)"
  using generateSelectiveAckBitMask_bits [OF assms(1), of 0 s]
    generateSelectiveAckBitMask_bits [OF assms(1), of 1 s]
    generateSelectiveAckBitMask_bits [OF assms(1), of 2 s]
    generateSelectiveAckBitMask_bits [OF assms(1), of 3 s]
    generateSelectiveAckBitMask_bits [OF assms(1), of 31 s]
    assms(2,3)
  by simp

theorem selectiveAck_window_starts_at_ackNr_plus_one_witness:
  "wellformed_bitmap sample_bitmap
   \<and> ackNr (reader_socket\<lparr> ackNrs := [102, 104, 133] \<rparr>) = 100
   \<and> ackNrs (reader_socket\<lparr> ackNrs := [102, 104, 133] \<rparr>) = [102, 104, 133]
   \<and> sample_bitmap ! 0 = 8 \<and> sample_bitmap ! 2 = 6 \<and> sample_bitmap ! 31 = 25
   \<and> \<not> generateSelectiveAckBitMask sample_bitmap (reader_socket\<lparr> ackNrs := [102, 104, 133] \<rparr>) ! 7
   \<and> \<not> generateSelectiveAckBitMask sample_bitmap (reader_socket\<lparr> ackNrs := [102, 104, 133] \<rparr>) ! 5
   \<and> \<not> generateSelectiveAckBitMask sample_bitmap (reader_socket\<lparr> ackNrs := [102, 104, 133] \<rparr>) ! 24"
proof -
  have wf: "wellformed_bitmap sample_bitmap"
    by (simp add: wellformed_bitmap_def sample_bitmap_def)
  have a: "ackNr (reader_socket\<lparr> ackNrs := [102, 104, 133] \<rparr>) = 100"
    by (simp add: reader_socket_def UtpSocket_new_def)
  have r: "ackNrs (reader_socket\<lparr> ackNrs := [102, 104, 133] \<rparr>) = [102, 104, 133]"
    by simp
  have n: "sample_bitmap ! 0 = 8" "sample_bitmap ! 2 = 6" "sample_bitmap ! 31 = 25"
    by (simp_all add: sample_bitmap_def)
  from selectiveAck_window_starts_at_ackNr_plus_one [OF wf a r] n wf a r
  show ?thesis by simp
qed

section \<open>The base delay\<close>

lemma updateDelay_baseDelay:
  "baseDelay (fst (updateDelay rnd mcwnd s ts timeReceived))
     = (if timeReceived - timestamp (baseDelay s) > 120000
          \<or> bigNumber_js_lt (timeReceived - ts) (delay (baseDelay s))
        then \<lparr> delay = timeReceived - ts, timestamp = timeReceived \<rparr>
        else baseDelay s)"
  by (simp add: updateDelay_def updateBaseDelay_def Let_def split: sum.splits)

lemma updateDelay_reply_micro:
  "reply_micro (fst (updateDelay rnd mcwnd s ts timeReceived)) = timeReceived - ts"
  by (simp add: updateDelay_def updateBaseDelay_def Let_def split: sum.splits)

lemma nine_not_below_ten: "\<not> bigNumber_js_lt 9 10"
  by (simp add: bigNumber_js_lt_def bigNumberToString_def)

text \<open>
  C7, evaluated. A new socket measures a delay of 10 at time 1000010, which becomes the base
  delay. Ten time units later it measures a delay of 9. The claim expects the base delay to
  become 9; the code compares the two \<^verbatim>\<open>BigNumber\<close> objects with \<^verbatim>\<open><\<close>, that is their decimal
  numerals as strings, and \<^verbatim>\<open>"9" < "10"\<close> is false: the base delay stays 10.
\<close>

theorem updateDelay_keeps_larger_base_delay:
  "baseDelay (fst (updateDelay rnd mcwnd reader_socket 1000000 1000010))
     = \<lparr> delay = 10, timestamp = 1000010 \<rparr>
   \<and> reply_micro (fst (updateDelay rnd mcwnd
        (fst (updateDelay rnd mcwnd reader_socket 1000000 1000010)) 1000011 1000020)) = 9
   \<and> baseDelay (fst (updateDelay rnd mcwnd
        (fst (updateDelay rnd mcwnd reader_socket 1000000 1000010)) 1000011 1000020))
     = \<lparr> delay = 10, timestamp = 1000010 \<rparr>"
proof -
  have first: "baseDelay (fst (updateDelay rnd mcwnd reader_socket 1000000 1000010))
     = \<lparr> delay = 10, timestamp = 1000010 \<rparr>"
    by (simp add: updateDelay_baseDelay reader_socket_def UtpSocket_new_def)
  have second: "baseDelay (fst (updateDelay rnd mcwnd
        (fst (updateDelay rnd mcwnd reader_socket 1000000 1000010)) 1000011 1000020))
     = \<lparr> delay = 10, timestamp = 1000010 \<rparr>"
    by (simp add: updateDelay_baseDelay [of rnd mcwnd _ 1000011 1000020] first
          nine_not_below_ten)
  from first second show ?thesis by (simp add: updateDelay_reply_micro)
qed

section \<open>The window in flight\<close>

lemma handleStatePacket_outBuffer:
  "outBuffer (fst (handleStatePacket dps s q)) = outBuffer s"
  by (simp add: handleStatePacket_def compare_def Let_def split: option.splits)

lemma handleStatePacket_writer_window:
  assumes "sock_type s = Write" and "writer s = Some w" and "Some (hdr_ackNr q) \<noteq> finNr s"
  shows "cur_window (fst (handleStatePacket dps s q)) = map_size (outBuffer s) * dps"
  using assms by (simp add: handleStatePacket_def compare_def Let_def)

lemma handleStatePacket_reader_window:
  assumes "sock_type s = Read" and "Some (hdr_ackNr q) \<noteq> finNr s"
  shows "cur_window (fst (handleStatePacket dps s q)) = cur_window s"
  using assms by (simp add: handleStatePacket_def)

lemma handleStatePacket_no_writer_window:
  assumes "writer s = None" and "Some (hdr_ackNr q) \<noteq> finNr s"
  shows "cur_window (fst (handleStatePacket dps s q)) = cur_window s"
  using assms by (simp add: handleStatePacket_def compare_def Let_def)

lemma handleDataPacket_cur_window:
  "cur_window (fst (handleDataPacket bitmap s p)) = cur_window s"
  by (simp add: handleDataPacket_def Let_def split: option.splits)

lemma sendDataPacket_fields:
  "state (fst (sendDataPacket dps s p)) = Some Connected"
  "outBuffer (fst (sendDataPacket dps s p))
     = AList.update (hdr_seqNr p) (hdr_timestampMicroseconds p) (outBuffer s)"
  "cur_window (fst (sendDataPacket dps s p))
     = map_size (AList.update (hdr_seqNr p) (hdr_timestampMicroseconds p) (outBuffer s)) * dps"
  by (simp_all add: sendDataPacket_def Let_def)

text \<open>
  C8, as the code has it. Right after \<^verbatim>\<open>sendDataPacket\<close> the socket is \<open>Connected\<close>, the
  sequence number of the packet is a key of the buffer and \<open>cur_window\<close> is the size of the
  buffer times the packet size. \<^verbatim>\<open>handleStatePacket\<close> leaves the buffer as it is; on a writer
  socket that has a writer, for a packet that does not acknowledge the FIN, it leaves the
  socket \<open>Connected\<close> with \<open>cur_window\<close> recomputed from the size of the buffer. The other
  paths to \<open>Connected\<close> leave \<open>cur_window\<close> as it was: \<^verbatim>\<open>handleDataPacket\<close>, and
  \<^verbatim>\<open>handleStatePacket\<close> on a reader socket or on a socket without a writer.
\<close>

theorem cur_window_after_send_and_state:
  "state (fst (sendDataPacket dps s p)) = Some Connected
   \<and> hdr_seqNr p \<in> fst ` set (outBuffer (fst (sendDataPacket dps s p)))
   \<and> cur_window (fst (sendDataPacket dps s p))
       = map_size (outBuffer (fst (sendDataPacket dps s p))) * dps
   \<and> outBuffer (fst (handleStatePacket dps s q)) = outBuffer s
   \<and> (sock_type s = Write \<and> writer s = Some w \<and> Some (hdr_ackNr q) \<noteq> finNr s \<longrightarrow>
        state (fst (handleStatePacket dps s q)) = Some Connected
        \<and> cur_window (fst (handleStatePacket dps s q))
            = map_size (outBuffer (fst (handleStatePacket dps s q))) * dps)
   \<and> (sock_type s = Read \<and> Some (hdr_ackNr q) \<noteq> finNr s \<longrightarrow>
        state (fst (handleStatePacket dps s q)) = Some Connected
        \<and> cur_window (fst (handleStatePacket dps s q)) = cur_window s)
   \<and> (writer s = None \<and> Some (hdr_ackNr q) \<noteq> finNr s \<longrightarrow>
        state (fst (handleStatePacket dps s q)) = Some Connected
        \<and> cur_window (fst (handleStatePacket dps s q)) = cur_window s)
   \<and> state (fst (handleDataPacket bitmap s p)) = Some Connected
   \<and> cur_window (fst (handleDataPacket bitmap s p)) = cur_window s"
  by (simp add: sendDataPacket_fields handleStatePacket_outBuffer handleStatePacket_state
        handleStatePacket_writer_window handleStatePacket_reader_window
        handleStatePacket_no_writer_window handleDataPacket_state handleDataPacket_cur_window
        AList.dom_update)

theorem cur_window_after_send_and_state_witness:
  "sock_type (fst (sendDataPacket 1280 writer_socket (dataPacket 1))) = Write
   \<and> writer (fst (sendDataPacket 1280 writer_socket (dataPacket 1))) = Some \<lparr> writing = True \<rparr>
   \<and> Some (hdr_ackNr (statePacket 1)) \<noteq> finNr (fst (sendDataPacket 1280 writer_socket (dataPacket 1)))
   \<and> state (fst (handleStatePacket 1280
        (fst (sendDataPacket 1280 writer_socket (dataPacket 1))) (statePacket 1))) = Some Connected
   \<and> cur_window (fst (handleStatePacket 1280
        (fst (sendDataPacket 1280 writer_socket (dataPacket 1))) (statePacket 1))) = 1280
   \<and> sock_type (fst (sendSynPacket reader_socket (dataPacket 1))) = Read
   \<and> writer (fst (sendSynPacket reader_socket (dataPacket 1))) = None
   \<and> Some (hdr_ackNr (statePacket 1)) \<noteq> finNr (fst (sendSynPacket reader_socket (dataPacket 1)))
   \<and> state (fst (handleStatePacket 1280
        (fst (sendSynPacket reader_socket (dataPacket 1))) (statePacket 1))) = Some Connected
   \<and> cur_window (fst (handleStatePacket 1280
        (fst (sendSynPacket reader_socket (dataPacket 1))) (statePacket 1))) = 0
   \<and> cur_window (fst (handleDataPacket sample_bitmap
        (fst (sendSynPacket reader_socket (dataPacket 1))) (dataPacket 101))) = 0"
  using cur_window_after_send_and_state [of 1280
      "fst (sendDataPacket 1280 writer_socket (dataPacket 1))" "dataPacket 2" "statePacket 1"
      "\<lparr> writing = True \<rparr>" sample_bitmap]
    cur_window_after_send_and_state [of 1280
      "fst (sendSynPacket reader_socket (dataPacket 1))" "dataPacket 101" "statePacket 1"
      "\<lparr> writing = True \<rparr>" sample_bitmap]
  by (simp add: sendDataPacket_def sendSynPacket_def Let_def writer_socket_def reader_socket_def
        UtpSocket_new_def dataPacket_def statePacket_def map_size_def)

text \<open>
  A reader socket sends its SYN, which puts one entry into the buffer, and receives the STATE
  packet that answers it: it is \<open>Connected\<close> with one entry in the buffer and a \<open>cur_window\<close>
  of 0.
\<close>

theorem cur_window_invariant_counterexample:
  "state (fst (handleStatePacket 1280 (fst (sendSynPacket reader_socket (dataPacket 1)))
        (statePacket 1))) = Some Connected
   \<and> map_size (outBuffer (fst (handleStatePacket 1280
        (fst (sendSynPacket reader_socket (dataPacket 1))) (statePacket 1)))) = 1
   \<and> cur_window (fst (handleStatePacket 1280 (fst (sendSynPacket reader_socket (dataPacket 1)))
        (statePacket 1))) = 0
   \<and> cur_window (fst (handleStatePacket 1280 (fst (sendSynPacket reader_socket (dataPacket 1)))
        (statePacket 1)))
      \<noteq> map_size (outBuffer (fst (handleStatePacket 1280
            (fst (sendSynPacket reader_socket (dataPacket 1))) (statePacket 1)))) * 1280"
  by (simp add: handleStatePacket_def sendSynPacket_def Let_def reader_socket_def
        UtpSocket_new_def dataPacket_def statePacket_def map_size_def)

section \<open>The fetch\<close>







end
